theory Spec2Isabelle
  imports Main
begin

section \<open>Python strings\<close>

text \<open>
  A Python \<open>str\<close> is a sequence of Unicode code points. The three built-in methods the
  notebook calls (\<open>strip\<close>, \<open>upper\<close>, \<open>swapcase\<close>) are written out below the way CPython
  computes them (\<open>Objects/unicodeobject.c\<close>: \<open>do_strip\<close>, \<open>do_upper\<close>, \<open>do_swapcase\<close>,
  \<open>lower_ucs4\<close>, \<open>handle_capital_sigma\<close>). They read the Unicode character database of
  the interpreter, which is not part of the repository: it is a parameter \<open>db\<close> of every
  definition, so that a theorem stated for all \<open>db\<close> holds for the tables of any Python
  version.
\<close>

type_synonym codepoint = nat
type_synonym str = "codepoint list"

record unicode_db =
  IsWhitespace :: "codepoint \<Rightarrow> bool"
  IsUppercase :: "codepoint \<Rightarrow> bool"
  IsLowercase :: "codepoint \<Rightarrow> bool"
  IsCased :: "codepoint \<Rightarrow> bool"
  IsCaseIgnorable :: "codepoint \<Rightarrow> bool"
  ToUpperFull :: "codepoint \<Rightarrow> str"
  ToLowerFull :: "codepoint \<Rightarrow> str"

text \<open>\<open>text.strip()\<close>: drop the white space at both ends.\<close>

definition py_strip :: "unicode_db \<Rightarrow> str \<Rightarrow> str" where
  "py_strip db s = rev (dropWhile (IsWhitespace db) (rev (dropWhile (IsWhitespace db) s)))"

text \<open>\<open>text.upper()\<close>: the full upper-case mapping of every code point, one after the
  other; a mapping may be longer than one code point (U+00DF gives \<open>SS\<close>).\<close>

definition py_upper :: "unicode_db \<Rightarrow> str \<Rightarrow> str" where
  "py_upper db s = concat (map (ToUpperFull db) s)"

text \<open>
  \<open>text.swapcase()\<close>: an upper-case code point is lowered, a lower-case one is raised, any
  other is kept. Lowering the Greek capital sigma U+03A3 looks at its neighbours: it gives
  the final sigma U+03C2 when a cased letter comes before it (case-ignorable code points
  skipped) and no cased letter comes after it, and the small sigma U+03C3 otherwise.
\<close>

definition handle_capital_sigma :: "unicode_db \<Rightarrow> str \<Rightarrow> nat \<Rightarrow> codepoint" where
  "handle_capital_sigma db data i =
     (case dropWhile (IsCaseIgnorable db) (rev (take i data)) of
        [] \<Rightarrow> 0x3C3
      | c # _ \<Rightarrow>
          if IsCased db c then
            (case dropWhile (IsCaseIgnorable db) (drop (Suc i) data) of
               [] \<Rightarrow> 0x3C2
             | d # _ \<Rightarrow> if IsCased db d then 0x3C3 else 0x3C2)
          else 0x3C3)"

definition lower_ucs4 :: "unicode_db \<Rightarrow> str \<Rightarrow> nat \<Rightarrow> codepoint \<Rightarrow> str" where
  "lower_ucs4 db data i c =
     (if c = 0x3A3 then [handle_capital_sigma db data i] else ToLowerFull db c)"

definition swapcase_at :: "unicode_db \<Rightarrow> str \<Rightarrow> nat \<Rightarrow> str" where
  "swapcase_at db data i =
     (let c = data ! i in
      if IsUppercase db c then lower_ucs4 db data i c
      else if IsLowercase db c then ToUpperFull db c
      else [c])"

definition py_swapcase :: "unicode_db \<Rightarrow> str \<Rightarrow> str" where
  "py_swapcase db data = concat (map (swapcase_at db data) [0..<length data])"

text \<open>A string literal of the source, as code points.\<close>

definition lit :: "string \<Rightarrow> str" where
  "lit s = map of_char s"

text \<open>
  The tables of the Unicode character database on Basic Latin and on the three Greek
  sigmas; the white-space table is the whole of Python's. The closed examples below are
  evaluated with it, on strings over these code points only.
\<close>

definition latin_sigma_db :: unicode_db where
  "latin_sigma_db =
     \<lparr> IsWhitespace = (\<lambda>c. (9 \<le> c \<and> c \<le> 13) \<or> (28 \<le> c \<and> c \<le> 32) \<or> c = 0x85 \<or> c = 0xA0
          \<or> c = 0x1680 \<or> (0x2000 \<le> c \<and> c \<le> 0x200A) \<or> c = 0x2028 \<or> c = 0x2029
          \<or> c = 0x202F \<or> c = 0x205F \<or> c = 0x3000),
       IsUppercase = (\<lambda>c. (0x41 \<le> c \<and> c \<le> 0x5A) \<or> c = 0x3A3),
       IsLowercase = (\<lambda>c. (0x61 \<le> c \<and> c \<le> 0x7A) \<or> c = 0x3C2 \<or> c = 0x3C3),
       IsCased = (\<lambda>c. (0x41 \<le> c \<and> c \<le> 0x5A) \<or> (0x61 \<le> c \<and> c \<le> 0x7A)
          \<or> c = 0x3A3 \<or> c = 0x3C2 \<or> c = 0x3C3),
       IsCaseIgnorable = (\<lambda>c. c = 0x27 \<or> c = 0x2E \<or> c = 0x3A \<or> c = 0x5E \<or> c = 0x60),
       ToUpperFull = (\<lambda>c. if 0x61 \<le> c \<and> c \<le> 0x7A then [c - 32]
          else if c = 0x3C2 \<or> c = 0x3C3 then [0x3A3] else [c]),
       ToLowerFull = (\<lambda>c. if 0x41 \<le> c \<and> c \<le> 0x5A then [c + 32]
          else if c = 0x3A3 then [0x3C3] else [c]) \<rparr>"

section \<open>The notebook's parsers\<close>

text \<open>The two exceptions the notebook raises; their message strings are left out.\<close>

datatype error = OutputParserException | NotImplementedError

record AIMessage =
  content :: str

type_synonym AIMessageChunk = AIMessage

text \<open>\<open>ChatGeneration\<close> is the subclass of \<open>Generation\<close> that carries a message.\<close>

datatype Generation = Generation str | ChatGeneration AIMessage

subsection \<open>The function parsers\<close>

text \<open>\<open>def parse(ai_message): return ai_message.content.swapcase()\<close>\<close>

definition parse :: "unicode_db \<Rightarrow> AIMessage \<Rightarrow> str" where
  "parse db ai_message = py_swapcase db (content ai_message)"

text \<open>\<open>def streaming_parse(chunks): for chunk in chunks: yield chunk.content.swapcase()\<close>;
  the list holds what the generator yields, in order.\<close>

definition streaming_parse :: "unicode_db \<Rightarrow> AIMessageChunk list \<Rightarrow> str list" where
  "streaming_parse db chunks = map (\<lambda>chunk. py_swapcase db (content chunk)) chunks"

subsection \<open>BooleanOutputParser\<close>

record BooleanOutputParser =
  true_val :: str
  false_val :: str

text \<open>\<open>BooleanOutputParser(true_val=..., false_val=...)\<close> with the defaults of the class.\<close>

definition BooleanOutputParser_init :: "str option \<Rightarrow> str option \<Rightarrow> BooleanOutputParser" where
  "BooleanOutputParser_init tv fv =
     \<lparr> true_val = (case tv of None \<Rightarrow> lit ''YES'' | Some t \<Rightarrow> t),
       false_val = (case fv of None \<Rightarrow> lit ''NO'' | Some f \<Rightarrow> f) \<rparr>"

definition BooleanOutputParser_parse ::
  "unicode_db \<Rightarrow> BooleanOutputParser \<Rightarrow> str \<Rightarrow> error + bool" where
  "BooleanOutputParser_parse db self text =
     (let cleaned_text = py_upper db (py_strip db text) in
      if cleaned_text \<notin> set [py_upper db (true_val self), py_upper db (false_val self)]
      then Inl OutputParserException
      else Inr (cleaned_text = py_upper db (true_val self)))"

subsection \<open>StrInvertCase\<close>

definition StrInvertCase_parse_result ::
  "unicode_db \<Rightarrow> Generation list \<Rightarrow> bool \<Rightarrow> error + str" where
  "StrInvertCase_parse_result db result partial =
     (if length result \<noteq> 1 then Inl NotImplementedError
      else (case result ! 0 of
              Generation _ \<Rightarrow> Inl OutputParserException
            | ChatGeneration message \<Rightarrow> Inr (py_swapcase db (content message))))"

section \<open>Notions used by the properties\<close>

text \<open>Two strings are equal when case is ignored: their upper-casings are the same.\<close>

definition equal_ignoring_case :: "unicode_db \<Rightarrow> str \<Rightarrow> str \<Rightarrow> bool" where
  "equal_ignoring_case db a b = (py_upper db a = py_upper db b)"

text \<open>
  Python values are dynamically typed. \<open>BooleanOutputParser_parse_value\<close> is the outcome
  of \<open>BooleanOutputParser.parse\<close> with the returned object tagged by its runtime type:
  the source returns the result of the comparison \<open>cleaned_text == self.true_val.upper()\<close>.
\<close>

datatype py_value = PyStr str | PyBool bool

fun is_str :: "py_value \<Rightarrow> bool" where
  "is_str (PyStr _) = True"
| "is_str (PyBool _) = False"

definition BooleanOutputParser_parse_value ::
  "unicode_db \<Rightarrow> BooleanOutputParser \<Rightarrow> str \<Rightarrow> error + py_value" where
  "BooleanOutputParser_parse_value db self text =
     (case BooleanOutputParser_parse db self text of
        Inl e \<Rightarrow> Inl e
      | Inr b \<Rightarrow> Inr (PyBool b))"

text \<open>What \<open>swapcase\<close> does to a code point whose lowering ignores its neighbours.\<close>

definition swapcase_char :: "unicode_db \<Rightarrow> codepoint \<Rightarrow> str" where
  "swapcase_char db c =
     (if IsUppercase db c then ToLowerFull db c
      else if IsLowercase db c then ToUpperFull db c
      else [c])"





text \<open>
  \<open>out\<close> is the code point \<open>c\<close> with its case inverted: the lower-casing of an upper-case
  code point (one of the two small sigmas for U+03A3), the upper-casing of a lower-case
  one, and \<open>c\<close> itself when it has no case.
\<close>

definition case_inverted :: "unicode_db \<Rightarrow> codepoint \<Rightarrow> str \<Rightarrow> bool" where
  "case_inverted db c out =
     (if IsUppercase db c then
        (if c = 0x3A3 then out = [0x3C2] \<or> out = [0x3C3] else out = ToLowerFull db c)
      else if IsLowercase db c then out = ToUpperFull db c
      else out = [c])"

section \<open>Facts about the string methods\<close>



lemma swapcase_at_no_sigma:
  "data ! i \<noteq> 0x3A3 \<Longrightarrow> swapcase_at db data i = swapcase_char db (data ! i)"
  by (simp add: swapcase_at_def lower_ucs4_def swapcase_char_def Let_def)

text \<open>On a string without U+03A3, \<open>swapcase\<close> works code point by code point.\<close>

lemma py_swapcase_no_sigma:
  assumes "0x3A3 \<notin> set data"
  shows "py_swapcase db data = concat (map (swapcase_char db) data)"
proof -
  have "map (swapcase_at db data) [0..<length data]
      = map (\<lambda>i. swapcase_char db (data ! i)) [0..<length data]"
  proof (rule map_cong[OF refl])
    fix i assume "i \<in> set [0..<length data]"
    then have "data ! i \<in> set data" by simp
    with assms have "data ! i \<noteq> 0x3A3" by metis
    then show "swapcase_at db data i = swapcase_char db (data ! i)"
      by (rule swapcase_at_no_sigma)
  qed
  also have "\<dots> = map (swapcase_char db) (map (\<lambda>i. data ! i) [0..<length data])"
    by (simp add: comp_def)
  also have "\<dots> = map (swapcase_char db) data"
    by (simp add: map_nth)
  finally show ?thesis by (simp add: py_swapcase_def)
qed

text \<open>Every piece of \<open>swapcase\<close> is its code point with the case inverted.\<close>

lemma handle_capital_sigma_cases:
  "handle_capital_sigma db data i = 0x3C2 \<or> handle_capital_sigma db data i = 0x3C3"
  by (simp add: handle_capital_sigma_def split: list.splits)

lemma swapcase_at_case_inverted: "case_inverted db (data ! i) (swapcase_at db data i)"
  using handle_capital_sigma_cases [of db data i]
  by (auto simp: case_inverted_def swapcase_at_def lower_ucs4_def Let_def)

lemma py_swapcase_case_inverted:
  "\<exists>outs. list_all2 (case_inverted db) data outs \<and> py_swapcase db data = concat outs"
proof (intro exI conjI)
  show "list_all2 (case_inverted db) data (map (swapcase_at db data) [0..<length data])"
    by (simp add: list_all2_conv_all_nth swapcase_at_case_inverted)
  show "py_swapcase db data = concat (map (swapcase_at db data) [0..<length data])"
    by (simp add: py_swapcase_def)
qed







section \<open>BooleanOutputParser\<close>

text \<open>The three outcomes of \<open>parse\<close>, by the cleaned text.\<close>

lemma parse_cases:
  "BooleanOutputParser_parse db self text =
     (if py_upper db (py_strip db text) = py_upper db (true_val self) then Inr True
      else if py_upper db (py_strip db text) = py_upper db (false_val self) then Inr False
      else Inl OutputParserException)"
  by (simp add: BooleanOutputParser_parse_def Let_def)

text \<open>
  C1 (as amended): for any configured tokens, \<open>parse\<close> returns a value exactly for the
  inputs whose stripped form equals the true token or the false token when case is
  ignored, and raises \<open>OutputParserException\<close> for every other input; a configured token
  is itself accepted when it has no white space at its ends.
\<close>

theorem BooleanOutputParser_parse_accepts_stripped_match:
  "(if equal_ignoring_case db (py_strip db text) (true_val self)
       \<or> equal_ignoring_case db (py_strip db text) (false_val self)
    then BooleanOutputParser_parse db self text
         = Inr (equal_ignoring_case db (py_strip db text) (true_val self))
    else BooleanOutputParser_parse db self text = Inl OutputParserException)
   \<and> (py_strip db (true_val self) = true_val self
        \<longrightarrow> BooleanOutputParser_parse db self (true_val self) = Inr True)
   \<and> (py_strip db (false_val self) = false_val self
        \<longrightarrow> (\<exists>b. BooleanOutputParser_parse db self (false_val self) = Inr b))"
  by (auto simp: parse_cases equal_ignoring_case_def)

text \<open>With the default tokens: \<open>YES\<close> and \<open>NO\<close> are accepted, \<open>MEOW\<close> is rejected.\<close>

theorem BooleanOutputParser_parse_accepts_stripped_match_witness:
  "py_strip latin_sigma_db (lit ''YES'') = lit ''YES''
   \<and> BooleanOutputParser_parse latin_sigma_db (BooleanOutputParser_init None None) (lit ''YES'')
       = Inr True
   \<and> py_strip latin_sigma_db (lit ''NO'') = lit ''NO''
   \<and> (\<exists>b. BooleanOutputParser_parse latin_sigma_db (BooleanOutputParser_init None None)
          (lit ''NO'') = Inr b)
   \<and> BooleanOutputParser_parse latin_sigma_db (BooleanOutputParser_init None None) (lit ''MEOW'')
       = Inl OutputParserException"
proof -
  let ?self = "BooleanOutputParser_init None None"
  have tv: "true_val ?self = lit ''YES''" and fv: "false_val ?self = lit ''NO''"
    by (simp_all add: BooleanOutputParser_init_def)
  have h1: "py_strip latin_sigma_db (lit ''YES'') = lit ''YES''" by code_simp
  have h2: "py_strip latin_sigma_db (lit ''NO'') = lit ''NO''" by code_simp
  have h3: "\<not> (equal_ignoring_case latin_sigma_db
                (py_strip latin_sigma_db (lit ''MEOW'')) (lit ''YES'')
       \<or> equal_ignoring_case latin_sigma_db
                (py_strip latin_sigma_db (lit ''MEOW'')) (lit ''NO''))"
    by code_simp
  from BooleanOutputParser_parse_accepts_stripped_match
         [of latin_sigma_db "lit ''MEOW''" ?self] h1 h2 h3
  show ?thesis unfolding tv fv by simp
qed

text \<open>
  A parser configured with the true token \<open>" YES"\<close> rejects that very token: the input
  is stripped before the comparison, the token is not.
\<close>

theorem BooleanOutputParser_parse_rejects_padded_token:
  "equal_ignoring_case latin_sigma_db (lit '' YES'') (lit '' YES'')
   \<and> BooleanOutputParser_parse latin_sigma_db
        (BooleanOutputParser_init (Some (lit '' YES'')) None) (lit '' YES'')
       = Inl OutputParserException"
  by code_simp




text \<open>
  C6 (as amended): when \<open>BooleanOutputParser.parse\<close> accepts a string, the value it
  returns is a boolean, not a string: \<open>True\<close> when the cleaned text is the upper-cased true
  token and \<open>False\<close> otherwise.
\<close>

theorem BooleanOutputParser_parse_value_is_bool:
  "BooleanOutputParser_parse_value db self text = Inr v \<Longrightarrow>
   v = PyBool (py_upper db (py_strip db text) = py_upper db (true_val self)) \<and> \<not> is_str v"
  by (auto simp: BooleanOutputParser_parse_value_def parse_cases split: if_splits)

theorem BooleanOutputParser_parse_value_is_bool_witness:
  "BooleanOutputParser_parse_value latin_sigma_db (BooleanOutputParser_init None None) (lit ''no'')
     = Inr (PyBool False)
   \<and> PyBool False = PyBool (py_upper latin_sigma_db (py_strip latin_sigma_db (lit ''no''))
        = py_upper latin_sigma_db (true_val (BooleanOutputParser_init None None)))
   \<and> \<not> is_str (PyBool False)"
proof -
  have h: "BooleanOutputParser_parse_value latin_sigma_db (BooleanOutputParser_init None None)
      (lit ''no'') = Inr (PyBool False)"
    by code_simp
  from h BooleanOutputParser_parse_value_is_bool [OF h] show ?thesis by blast
qed

text \<open>The default parser accepts \<open>YES\<close> and returns the boolean \<open>True\<close>.\<close>

theorem BooleanOutputParser_parse_value_not_str:
  "BooleanOutputParser_parse_value latin_sigma_db (BooleanOutputParser_init None None) (lit ''YES'')
     = Inr (PyBool True)
   \<and> \<not> is_str (PyBool True)"
  by code_simp




text \<open>
  C10: when the two tokens have the same upper-casing, \<open>BooleanOutputParser.parse\<close>
  never returns \<open>False\<close>: every input it accepts gives \<open>True\<close>.
\<close>

theorem BooleanOutputParser_parse_coinciding_tokens:
  assumes "py_upper db (true_val self) = py_upper db (false_val self)"
  shows "BooleanOutputParser_parse db self text \<noteq> Inr False
    \<and> (\<forall>b. BooleanOutputParser_parse db self text = Inr b \<longrightarrow> b = True)"
  using assms by (simp add: parse_cases)

text \<open>The tokens \<open>yes\<close> and \<open>Yes\<close>, on the input \<open>YES\<close>.\<close>

theorem BooleanOutputParser_parse_coinciding_tokens_witness:
  "py_upper latin_sigma_db (lit ''yes'') = py_upper latin_sigma_db (lit ''Yes'')
   \<and> BooleanOutputParser_parse latin_sigma_db
        (BooleanOutputParser_init (Some (lit ''yes'')) (Some (lit ''Yes''))) (lit ''YES'')
      = Inr True
   \<and> BooleanOutputParser_parse latin_sigma_db
        (BooleanOutputParser_init (Some (lit ''yes'')) (Some (lit ''Yes''))) (lit ''YES'')
      \<noteq> Inr False"
proof -
  let ?self = "BooleanOutputParser_init (Some (lit ''yes'')) (Some (lit ''Yes''))"
  have h: "py_upper latin_sigma_db (true_val ?self) = py_upper latin_sigma_db (false_val ?self)"
    by code_simp
  have e: "BooleanOutputParser_parse latin_sigma_db ?self (lit ''YES'') = Inr True"
    by code_simp
  have tv: "true_val ?self = lit ''yes''" and fv: "false_val ?self = lit ''Yes''"
    by (simp_all add: BooleanOutputParser_init_def)
  from e h BooleanOutputParser_parse_coinciding_tokens [OF h, of "lit ''YES''"]
  show ?thesis unfolding tv fv by simp
qed

section \<open>StrInvertCase\<close>

text \<open>
  C3: for every list of generations whose length is not one, \<open>parse_result\<close> raises
  and returns no value.
\<close>

theorem StrInvertCase_parse_result_rejects_non_singleton:
  "length result \<noteq> 1 \<Longrightarrow>
   StrInvertCase_parse_result db result partial = Inl NotImplementedError"
  by (simp add: StrInvertCase_parse_result_def)

theorem StrInvertCase_parse_result_rejects_non_singleton_witness:
  "length [ChatGeneration \<lparr>content = lit ''a''\<rparr>, ChatGeneration \<lparr>content = lit ''b''\<rparr>] \<noteq> 1
   \<and> StrInvertCase_parse_result latin_sigma_db
        [ChatGeneration \<lparr>content = lit ''a''\<rparr>, ChatGeneration \<lparr>content = lit ''b''\<rparr>] False
      = Inl NotImplementedError"
  using StrInvertCase_parse_result_rejects_non_singleton
    [of "[ChatGeneration \<lparr>content = lit ''a''\<rparr>, ChatGeneration \<lparr>content = lit ''b''\<rparr>]"
        latin_sigma_db False]
  by simp

text \<open>
  C4: on a list of one generation, \<open>parse_result\<close> looks at the kind of the generation:
  for a chat generation it returns the text of the message with the case inverted, every
  code point replaced by its inversion in order (which is also what the function parser
  \<open>parse\<close> returns for the message); for a plain generation it raises
  \<open>OutputParserException\<close>.
\<close>

theorem StrInvertCase_parse_result_singleton:
  "(\<exists>outs. list_all2 (case_inverted db) (content message) outs
      \<and> StrInvertCase_parse_result db [ChatGeneration message] partial = Inr (concat outs))
   \<and> StrInvertCase_parse_result db [ChatGeneration message] partial = Inr (parse db message)
   \<and> StrInvertCase_parse_result db [Generation t] partial = Inl OutputParserException"
  using py_swapcase_case_inverted [of db "content message"]
  by (simp add: StrInvertCase_parse_result_def parse_def)

text \<open>A chat generation with the text \<open>Hello\<close> gives \<open>hELLO\<close>; a plain one is refused.\<close>

theorem StrInvertCase_parse_result_singleton_witness:
  "StrInvertCase_parse_result latin_sigma_db [ChatGeneration \<lparr>content = lit ''Hello''\<rparr>] False
     = Inr (lit ''hELLO'')
   \<and> StrInvertCase_parse_result latin_sigma_db [Generation (lit ''Hello'')] False
     = Inl OutputParserException"
proof -
  have e: "parse latin_sigma_db \<lparr>content = lit ''Hello''\<rparr> = lit ''hELLO''"
    by code_simp
  from StrInvertCase_parse_result_singleton
         [of latin_sigma_db "\<lparr>content = lit ''Hello''\<rparr>" False "lit ''Hello''"] e
  show ?thesis by simp
qed

section \<open>Failure kinds\<close>

text \<open>
  C2 (as amended): every failure of \<open>BooleanOutputParser.parse\<close> is an
  \<open>OutputParserException\<close>; a failure of \<open>StrInvertCase.parse_result\<close> is an
  \<open>OutputParserException\<close> when the list holds one generation and a
  \<open>NotImplementedError\<close> when it does not.
\<close>

theorem parsers_failure_kinds:
  "(BooleanOutputParser_parse db self text = Inl e \<longrightarrow> e = OutputParserException)
   \<and> (StrInvertCase_parse_result db result partial = Inl e'
        \<longrightarrow> e' = (if length result = 1 then OutputParserException else NotImplementedError))"
  by (auto simp: parse_cases StrInvertCase_parse_result_def split: if_splits Generation.splits)

theorem parsers_failure_kinds_witness:
  "BooleanOutputParser_parse latin_sigma_db (BooleanOutputParser_init None None) (lit ''MEOW'')
     = Inl OutputParserException
   \<and> StrInvertCase_parse_result latin_sigma_db [Generation (lit ''hi'')] False
     = Inl OutputParserException
   \<and> OutputParserException
     = (if length [Generation (lit ''hi'')] = 1 then OutputParserException
        else NotImplementedError)"
proof -
  have a: "BooleanOutputParser_parse latin_sigma_db (BooleanOutputParser_init None None)
      (lit ''MEOW'') = Inl OutputParserException"
    by code_simp
  have b: "StrInvertCase_parse_result latin_sigma_db [Generation (lit ''hi'')] False
      = Inl OutputParserException"
    by code_simp
  from a b parsers_failure_kinds [of latin_sigma_db "BooleanOutputParser_init None None"
      "lit ''MEOW''" OutputParserException "[Generation (lit ''hi'')]" False
      OutputParserException]
  show ?thesis by simp
qed

text \<open>On the empty list \<open>parse_result\<close> raises \<open>NotImplementedError\<close>.\<close>

theorem StrInvertCase_parse_result_empty_NotImplementedError:
  "StrInvertCase_parse_result latin_sigma_db [] False = Inl NotImplementedError
   \<and> NotImplementedError \<noteq> OutputParserException"
  by (simp add: StrInvertCase_parse_result_def)

section \<open>The function parsers\<close>

text \<open>
  C9 (as amended): for every finite sequence of message chunks whose contents hold no
  Greek capital sigma U+03A3, the outputs of \<open>streaming_parse\<close>, concatenated, are
  \<open>parse\<close> of the message whose content is the concatenation of the chunk contents.
\<close>

theorem streaming_parse_agrees_without_capital_sigma:
  assumes "\<forall>chunk\<in>set chunks. 0x3A3 \<notin> set (content chunk)"
  shows "concat (streaming_parse db chunks)
       = parse db \<lparr>content = concat (map content chunks)\<rparr>"
proof -
  have "0x3A3 \<notin> set (concat (map content chunks))"
    using assms by auto
  then have "parse db \<lparr>content = concat (map content chunks)\<rparr>
      = concat (map (swapcase_char db) (concat (map content chunks)))"
    by (simp add: parse_def py_swapcase_no_sigma)
  also have "\<dots> = concat (map (\<lambda>chunk. concat (map (swapcase_char db) (content chunk))) chunks)"
    by (induction chunks) simp_all
  also have "\<dots> = concat (map (\<lambda>chunk. py_swapcase db (content chunk)) chunks)"
    using assms by (simp add: py_swapcase_no_sigma cong: map_cong)
  finally show ?thesis by (simp add: streaming_parse_def)
qed

text \<open>The chunks \<open>Me\<close> and \<open>ow\<close> give \<open>mEOW\<close> either way.\<close>

theorem streaming_parse_agrees_without_capital_sigma_witness:
  "concat (streaming_parse latin_sigma_db [\<lparr>content = lit ''Me''\<rparr>, \<lparr>content = lit ''ow''\<rparr>])
     = lit ''mEOW''
   \<and> parse latin_sigma_db
       \<lparr>content = concat (map content [\<lparr>content = lit ''Me''\<rparr>, \<lparr>content = lit ''ow''\<rparr>])\<rparr>
     = lit ''mEOW''"
proof -
  have h: "\<forall>chunk\<in>set [\<lparr>content = lit ''Me''\<rparr>, \<lparr>content = lit ''ow''\<rparr>].
      0x3A3 \<notin> set (content chunk)"
    by (simp add: lit_def)
  have e: "concat (streaming_parse latin_sigma_db
      [\<lparr>content = lit ''Me''\<rparr>, \<lparr>content = lit ''ow''\<rparr>]) = lit ''mEOW''"
    by code_simp
  from e streaming_parse_agrees_without_capital_sigma [OF h, of latin_sigma_db]
  show ?thesis by simp
qed

text \<open>
  The chunks \<open>A\<close> and U+03A3: streamed, the sigma stands alone and becomes the small sigma
  U+03C3; in the whole message it follows a cased letter and ends the string, and becomes
  the final sigma U+03C2.
\<close>

theorem streaming_parse_capital_sigma_disagrees:
  "concat (streaming_parse latin_sigma_db [\<lparr>content = lit ''A''\<rparr>, \<lparr>content = [0x3A3]\<rparr>])
     = [0x61, 0x3C3]
   \<and> parse latin_sigma_db
       \<lparr>content = concat (map content [\<lparr>content = lit ''A''\<rparr>, \<lparr>content = [0x3A3]\<rparr>])\<rparr>
     = [0x61, 0x3C2]"
  by code_simp

end
